theory Spec2Isabelle
  imports Complex_Main "HOL-Library.Sublist"
begin

section \<open>Python values, exceptions and library functions\<close>

text \<open>
  The matching engine of \<^verbatim>\<open>app.py\<close> is embedded function by function. Everything
  that can raise in Python returns a sum here, \<open>Inl\<close> carrying the exception. The only
  raising operations of the engine are the subscripts \<^verbatim>\<open>PLATFORMS[key]\<close> (KeyError)
  and \<^verbatim>\<open>random.randint\<close> on an empty range (ValueError).
\<close>

datatype error = KeyError string | ValueError

text \<open>\<^verbatim>\<open>HTTPException(status_code=500, detail=str(e))\<close>: the detail is kept as the
  exception it was rendered from.\<close>

datatype http_exception = HTTPException nat error

definition bind_err :: "error + 'a \<Rightarrow> ('a \<Rightarrow> error + 'b) \<Rightarrow> error + 'b" where
  "bind_err m f = (case m of Inl e \<Rightarrow> Inl e | Inr x \<Rightarrow> f x)"

text \<open>Python's \<^verbatim>\<open>a and b\<close> where only the right operand can raise: it is evaluated
  only when the left one is true.\<close>

definition and_also :: "bool \<Rightarrow> error + bool \<Rightarrow> error + bool" where
  "and_also a b = (if a then b else Inr False)"

text \<open>One arm of an \<^verbatim>\<open>if\<close>/\<^verbatim>\<open>elif\<close> chain whose condition can raise.\<close>

definition if_else :: "error + bool \<Rightarrow> error + 'a \<Rightarrow> error + 'a \<Rightarrow> error + 'a" where
  "if_else c t e = (case c of Inl err \<Rightarrow> Inl err | Inr b \<Rightarrow> if b then t else e)"

text \<open>\<^verbatim>\<open>d[key]\<close> on a dict, the dict given as its items in insertion order.\<close>

definition getitem :: "(string \<times> 'v) list \<Rightarrow> string \<Rightarrow> error + 'v" where
  "getitem d key = (case map_of d key of None \<Rightarrow> Inl (KeyError key) | Some v \<Rightarrow> Inr v)"

text \<open>\<^verbatim>\<open>x in d[key]\<close> for a dict of lists.\<close>

definition contained_in :: "string \<Rightarrow> error + string list \<Rightarrow> error + bool" where
  "contained_in x m = bind_err m (\<lambda>xs. Inr (x \<in> set xs))"

text \<open>
  \<^verbatim>\<open>random.randint(a, b)\<close> draws from the process-wide generator. The generator is an
  explicit state: the stream of raw values it will still produce. A draw reduces the next
  raw value into \<open>[a, b]\<close> and advances the stream; an empty range raises.
\<close>

type_synonym random_source = "nat \<Rightarrow> nat"

definition randint :: "int \<Rightarrow> int \<Rightarrow> random_source \<Rightarrow> error + (int \<times> random_source)" where
  "randint a b g =
     (if b < a then Inl ValueError
      else Inr (a + int (g 0 mod nat (b - a + 1)), \<lambda>i. g (Suc i)))"

text \<open>\<^verbatim>\<open>sep.join(parts)\<close>.\<close>

fun join :: "string \<Rightarrow> string list \<Rightarrow> string" where
  "join sep [] = []"
| "join sep [x] = x"
| "join sep (x # y # ys) = x @ sep @ join sep (y # ys)"

text \<open>
  \<^verbatim>\<open>xs.sort(key=key, reverse=True)\<close>: descending by key, and stable (elements with
  equal keys keep their order, also under \<^verbatim>\<open>reverse=True\<close>). Modelled by a stable
  insertion sort: an element is put in front of the first element whose key is not
  larger, so in front of the later elements that have its key.
\<close>

fun insort_reverse :: "('a \<Rightarrow> int) \<Rightarrow> 'a \<Rightarrow> 'a list \<Rightarrow> 'a list" where
  "insort_reverse key x [] = [x]"
| "insort_reverse key x (y # ys) =
     (if key y \<le> key x then x # y # ys else y # insort_reverse key x ys)"

definition sort_reverse :: "('a \<Rightarrow> int) \<Rightarrow> 'a list \<Rightarrow> 'a list" where
  "sort_reverse key xs = foldr (insort_reverse key) xs []"

section \<open>Data model\<close>

text \<open>\<^verbatim>\<open>class MatchRequest(BaseModel)\<close>. The weights of \<open>priorities\<close> are Python
  floats; they are carried as reals, and no operation of the engine reads them.\<close>

record MatchRequest =
  features :: "string list"
  budget :: string
  priorities :: "string \<rightharpoonup> real"
  use_case :: string
  team_size :: string
  monthly_volume :: string

text \<open>The platform database, a dict literal.\<close>

definition PLATFORMS :: "(string \<times> string list) list" where
  "PLATFORMS =
     [(''enterprise'', [''Synthesia'', ''HeyGen'', ''Colossyan'', ''Hour One'', ''D-ID'']),
      (''mid_tier'', [''Pictory'', ''InVideo'', ''Elai'', ''Rephrase'', ''Yepic'']),
      (''budget'', [''Fliki'', ''Vidnoz'', ''Steve.ai'', ''VEED'', ''Lumen5'']),
      (''specialized'', [''Movio'', ''DeepBrain'', ''Avaturn'', ''Oxolo'', ''Pipio''])]"

text \<open>An entry of \<^verbatim>\<open>scored_platforms\<close>: a dict with the keys \<open>name\<close>, \<open>match_score\<close>
  and \<open>reasoning\<close>, to which the key \<open>ai_consensus\<close> is added later (\<open>None\<close>: the key
  is absent).\<close>

record scored_platform =
  name :: string
  match_score :: int
  reasoning :: string
  ai_consensus :: "string option"

text \<open>The dict returned by the endpoint.\<close>

record MatchResponse =
  platforms :: "scored_platform list"
  overall_confidence :: int
  total_evaluated :: int
  synthesis_method :: string

section \<open>calculate_platform_score\<close>

text \<open>The four bonus blocks of \<^verbatim>\<open>calculate_platform_score\<close>, each taking the running
  \<^verbatim>\<open>base_score\<close> and returning it updated.\<close>

definition budget_alignment :: "string \<Rightarrow> MatchRequest \<Rightarrow> int \<Rightarrow> error + int" where
  "budget_alignment platform request base =
     if_else (and_also (budget request = ''budget_friendly'')
                (contained_in platform (getitem PLATFORMS ''budget'')))
       (Inr (base + 10))
     (if_else (and_also (budget request = ''professional'')
                (contained_in platform (getitem PLATFORMS ''mid_tier'')))
       (Inr (base + 10))
     (if_else (and_also (budget request = ''enterprise'')
                (contained_in platform (getitem PLATFORMS ''enterprise'')))
       (Inr (base + 10))
       (Inr base)))"

definition use_case_alignment :: "string \<Rightarrow> MatchRequest \<Rightarrow> int \<Rightarrow> int" where
  "use_case_alignment platform request base =
     (if use_case request = ''marketing'' then
        (if platform \<in> set [''Synthesia'', ''Pictory'', ''InVideo'', ''Promo'']
         then base + 8 else base)
      else if use_case request = ''training'' then
        (if platform \<in> set [''Colossyan'', ''Hour One'', ''Elai'', ''DeepBrain'']
         then base + 8 else base)
      else if use_case request = ''social'' then
        (if platform \<in> set [''Fliki'', ''Steve.ai'', ''VEED'', ''Lumen5'']
         then base + 8 else base)
      else base)"

definition team_size_consideration :: "string \<Rightarrow> MatchRequest \<Rightarrow> int \<Rightarrow> error + int" where
  "team_size_consideration platform request base =
     if_else (and_also (team_size request = ''large_team'')
                (contained_in platform (getitem PLATFORMS ''enterprise'')))
       (Inr (base + 5))
     (if_else (and_also (team_size request = ''just_me'')
                (contained_in platform (getitem PLATFORMS ''budget'')))
       (Inr (base + 5))
       (Inr base))"

definition volume_requirements :: "string \<Rightarrow> MatchRequest \<Rightarrow> int \<Rightarrow> error + int" where
  "volume_requirements platform request base =
     if_else (and_also (monthly_volume request = ''50+'')
                (contained_in platform (getitem PLATFORMS ''enterprise'')))
       (Inr (base + 5))
     (if_else (and_also (monthly_volume request = ''1-10'')
                (contained_in platform (getitem PLATFORMS ''budget'')))
       (Inr (base + 5))
       (Inr base))"

text \<open>The value of \<^verbatim>\<open>base_score\<close> when the variance is drawn: 75 and the four blocks
  in the order of the source.\<close>

definition base_score :: "string \<Rightarrow> MatchRequest \<Rightarrow> error + int" where
  "base_score platform request =
     bind_err (budget_alignment platform request 75) (\<lambda>b1.
     bind_err (Inr (use_case_alignment platform request b1)) (\<lambda>b2.
     bind_err (team_size_consideration platform request b2) (\<lambda>b3.
     volume_requirements platform request b3)))"

definition calculate_platform_score ::
  "string \<Rightarrow> MatchRequest \<Rightarrow> random_source \<Rightarrow> error + (int \<times> random_source)" where
  "calculate_platform_score platform request g =
     bind_err (base_score platform request) (\<lambda>base.
     bind_err (randint (- 3) 3 g) (\<lambda>(variance, g').
     let final_score = min 98 (max 60 (base + variance))
     in Inr (final_score, g')))"

section \<open>generate_reasoning\<close>

definition tier_reason :: "string \<Rightarrow> string list \<Rightarrow> error + string list" where
  "tier_reason platform reasons =
     if_else (contained_in platform (getitem PLATFORMS ''enterprise''))
       (Inr (reasons @ [''Enterprise-grade features with full team collaboration'']))
     (if_else (contained_in platform (getitem PLATFORMS ''mid_tier''))
       (Inr (reasons @ [''Balanced features and pricing for growing teams'']))
     (if_else (contained_in platform (getitem PLATFORMS ''budget''))
       (Inr (reasons @ [''Cost-effective solution for individual creators'']))
       (Inr reasons)))"

definition use_case_reason :: "MatchRequest \<Rightarrow> string list \<Rightarrow> string list" where
  "use_case_reason request reasons =
     (if use_case request = ''marketing'' then
        reasons @ [''Strong marketing video capabilities'']
      else if use_case request = ''training'' then
        reasons @ [''Excellent for educational and training content'']
      else if use_case request = ''social'' then
        reasons @ [''Optimized for social media content creation'']
      else reasons)"

definition volume_reason :: "MatchRequest \<Rightarrow> string list \<Rightarrow> string list" where
  "volume_reason request reasons =
     (if monthly_volume request = ''50+'' then
        reasons @ [''Handles high-volume production efficiently'']
      else reasons)"

definition generate_reasoning :: "string \<Rightarrow> MatchRequest \<Rightarrow> error + string" where
  "generate_reasoning platform request =
     bind_err (tier_reason platform []) (\<lambda>reasons.
     let reasons = use_case_reason request reasons;
         reasons = volume_reason request reasons
     in Inr (join ''. '' reasons))"

section \<open>calculate_matches\<close>

text \<open>The candidate pool chosen from the budget.\<close>

definition platform_pool :: "MatchRequest \<Rightarrow> error + string list" where
  "platform_pool request =
     (if budget request = ''budget_friendly'' then
        bind_err (getitem PLATFORMS ''budget'') (\<lambda>l.
        bind_err (getitem PLATFORMS ''mid_tier'') (\<lambda>r. Inr (l @ take 2 r)))
      else if budget request = ''professional'' then
        bind_err (getitem PLATFORMS ''mid_tier'') (\<lambda>l.
        bind_err (getitem PLATFORMS ''enterprise'') (\<lambda>r. Inr (l @ take 2 r)))
      else
        bind_err (getitem PLATFORMS ''enterprise'') (\<lambda>l.
        bind_err (getitem PLATFORMS ''specialized'') (\<lambda>r. Inr (l @ r))))"

text \<open>The scoring loop: \<open>scored\<close> is the list \<^verbatim>\<open>scored_platforms\<close> built so far, the
  first argument the platforms still to visit.\<close>

fun score_platforms ::
  "string list \<Rightarrow> MatchRequest \<Rightarrow> scored_platform list \<Rightarrow> random_source
     \<Rightarrow> error + (scored_platform list \<times> random_source)" where
  "score_platforms [] request scored g = Inr (scored, g)"
| "score_platforms (platform # rest) request scored g =
     bind_err (calculate_platform_score platform request g) (\<lambda>(score, g').
     bind_err (generate_reasoning platform request) (\<lambda>why.
     score_platforms rest request
       (scored @ [\<lparr>name = platform, match_score = score, reasoning = why,
                   ai_consensus = None\<rparr>]) g'))"

definition add_consensus :: "scored_platform \<Rightarrow> scored_platform" where
  "add_consensus platform =
     platform\<lparr>ai_consensus :=
       Some (if match_score platform > 90 then ''3/3 AIs recommend''
             else ''2/3 AIs recommend'')\<rparr>"

text \<open>The endpoint. The state of the generator after the request is not part of the
  result.\<close>

definition calculate_matches :: "MatchRequest \<Rightarrow> random_source \<Rightarrow> http_exception + MatchResponse" where
  "calculate_matches request g =
     (case
        bind_err (platform_pool request) (\<lambda>pool.
        bind_err (score_platforms pool request [] g) (\<lambda>(scored_platforms, g').
        let sorted_platforms = sort_reverse match_score scored_platforms;
            top_3 = take 3 sorted_platforms;
            top_3 = map add_consensus top_3
        in Inr \<lparr>platforms = top_3, overall_confidence = 95,
                 total_evaluated = int (length pool), synthesis_method = ''3AI-MCP''\<rparr>))
      of Inl e \<Rightarrow> Inl (HTTPException 500 e)
       | Inr response \<Rightarrow> Inr response)"

section \<open>A scenario request\<close>

text \<open>The request of the enterprise scenario: budget \<open>enterprise\<close>, use case \<open>training\<close>,
  team size \<open>large_team\<close>, monthly volume \<open>50+\<close>, no features and no priorities.\<close>

definition enterprise_training :: MatchRequest where
  "enterprise_training =
     \<lparr>features = [], budget = ''enterprise'', priorities = Map.empty,
      use_case = ''training'', team_size = ''large_team'', monthly_volume = ''50+''\<rparr>"

section \<open>Auxiliary facts: the engine never raises\<close>

lemma bind_err_simps [simp]:
  "bind_err (Inr x) f = f x"
  "bind_err (Inl e) f = Inl e"
  by (simp_all add: bind_err_def)

lemma and_also_simps [simp]:
  "and_also a (Inr b) = Inr (a \<and> b)"
  by (simp add: and_also_def)

lemma if_else_simps [simp]:
  "if_else (Inr b) t e = (if b then t else e)"
  by (simp add: if_else_def)

lemma contained_in_Inr [simp]:
  "contained_in x (Inr xs) = Inr (x \<in> set xs)"
  by (simp add: contained_in_def)

lemma PLATFORMS_enterprise:
  "getitem PLATFORMS ''enterprise'' =
     Inr [''Synthesia'', ''HeyGen'', ''Colossyan'', ''Hour One'', ''D-ID'']"
  by (simp add: getitem_def PLATFORMS_def)

lemma PLATFORMS_mid_tier:
  "getitem PLATFORMS ''mid_tier'' =
     Inr [''Pictory'', ''InVideo'', ''Elai'', ''Rephrase'', ''Yepic'']"
  by (simp add: getitem_def PLATFORMS_def)

lemma PLATFORMS_budget:
  "getitem PLATFORMS ''budget'' =
     Inr [''Fliki'', ''Vidnoz'', ''Steve.ai'', ''VEED'', ''Lumen5'']"
  by (simp add: getitem_def PLATFORMS_def)

lemma PLATFORMS_specialized:
  "getitem PLATFORMS ''specialized'' =
     Inr [''Movio'', ''DeepBrain'', ''Avaturn'', ''Oxolo'', ''Pipio'']"
  by (simp add: getitem_def PLATFORMS_def)

lemmas PLATFORMS_lookups =
  PLATFORMS_enterprise PLATFORMS_mid_tier PLATFORMS_budget PLATFORMS_specialized

lemma budget_alignment_Inr:
  "budget_alignment p r b =
     Inr (if budget r = ''budget_friendly'' \<and> p \<in> set [''Fliki'', ''Vidnoz'', ''Steve.ai'', ''VEED'', ''Lumen5'']
            \<or> budget r = ''professional'' \<and> p \<in> set [''Pictory'', ''InVideo'', ''Elai'', ''Rephrase'', ''Yepic'']
            \<or> budget r = ''enterprise'' \<and> p \<in> set [''Synthesia'', ''HeyGen'', ''Colossyan'', ''Hour One'', ''D-ID'']
          then b + 10 else b)"
  unfolding budget_alignment_def PLATFORMS_lookups by simp

lemma team_size_consideration_Inr:
  "team_size_consideration p r b =
     Inr (if team_size r = ''large_team'' \<and> p \<in> set [''Synthesia'', ''HeyGen'', ''Colossyan'', ''Hour One'', ''D-ID'']
            \<or> team_size r = ''just_me'' \<and> p \<in> set [''Fliki'', ''Vidnoz'', ''Steve.ai'', ''VEED'', ''Lumen5'']
          then b + 5 else b)"
  unfolding team_size_consideration_def PLATFORMS_lookups by simp

lemma volume_requirements_Inr:
  "volume_requirements p r b =
     Inr (if monthly_volume r = ''50+'' \<and> p \<in> set [''Synthesia'', ''HeyGen'', ''Colossyan'', ''Hour One'', ''D-ID'']
            \<or> monthly_volume r = ''1-10'' \<and> p \<in> set [''Fliki'', ''Vidnoz'', ''Steve.ai'', ''VEED'', ''Lumen5'']
          then b + 5 else b)"
  unfolding volume_requirements_def PLATFORMS_lookups by simp

lemma base_score_total: "\<exists>b. base_score p r = Inr b"
  unfolding base_score_def
  by (simp only: budget_alignment_Inr team_size_consideration_Inr volume_requirements_Inr bind_err_simps) blast


lemma randint_jitter:
  "randint (- 3) 3 g = Inr (int (g 0 mod 7) - 3, \<lambda>i. g (Suc i))"
  by (simp add: randint_def)

lemma calculate_platform_score_Inr:
  assumes "base_score p r = Inr b"
  shows "calculate_platform_score p r g =
           Inr (min 98 (max 60 (b + (int (g 0 mod 7) - 3))), \<lambda>i. g (Suc i))"
  by (simp add: calculate_platform_score_def assms randint_jitter)

lemma calculate_platform_score_total:
  "\<exists>s. 60 \<le> s \<and> s \<le> 98 \<and> calculate_platform_score p r g = Inr (s, \<lambda>i. g (Suc i))"
proof -
  obtain b where b: "base_score p r = Inr b"
    using base_score_total by blast
  show ?thesis
    unfolding calculate_platform_score_Inr [OF b] by simp
qed

lemma tier_reason_Inr:
  "tier_reason p rs =
     Inr (rs @
       (if p \<in> set [''Synthesia'', ''HeyGen'', ''Colossyan'', ''Hour One'', ''D-ID'']
          then [''Enterprise-grade features with full team collaboration'']
        else if p \<in> set [''Pictory'', ''InVideo'', ''Elai'', ''Rephrase'', ''Yepic'']
          then [''Balanced features and pricing for growing teams'']
        else if p \<in> set [''Fliki'', ''Vidnoz'', ''Steve.ai'', ''VEED'', ''Lumen5'']
          then [''Cost-effective solution for individual creators'']
        else []))"
  unfolding tier_reason_def PLATFORMS_lookups by simp

lemma generate_reasoning_total: "\<exists>w. generate_reasoning p r = Inr w"
  unfolding generate_reasoning_def tier_reason_Inr by (simp add: Let_def)

lemma score_platforms_total:
  "\<exists>scored' g'. score_platforms pool r scored g = Inr (scored', g')
     \<and> map name scored' = map name scored @ pool
     \<and> (\<forall>e \<in> set scored'. e \<in> set scored \<or> (60 \<le> match_score e \<and> match_score e \<le> 98))"
proof (induction pool arbitrary: scored g)
  case Nil
  show ?case by simp
next
  case (Cons p pool)
  obtain s where s: "60 \<le> s" "s \<le> 98"
      "calculate_platform_score p r g = Inr (s, \<lambda>i. g (Suc i))"
    using calculate_platform_score_total by blast
  obtain w where w: "generate_reasoning p r = Inr w"
    using generate_reasoning_total by blast
  let ?entry = "\<lparr>name = p, match_score = s, reasoning = w, ai_consensus = None\<rparr>"
  obtain scored' g' where rest:
      "score_platforms pool r (scored @ [?entry]) (\<lambda>i. g (Suc i)) = Inr (scored', g')"
      "map name scored' = map name (scored @ [?entry]) @ pool"
      "\<forall>e \<in> set scored'. e \<in> set (scored @ [?entry]) \<or> (60 \<le> match_score e \<and> match_score e \<le> 98)"
    using Cons.IH by blast
  have "score_platforms (p # pool) r scored g = Inr (scored', g')"
    by (simp add: s w rest)
  moreover have "map name scored' = map name scored @ p # pool"
    using rest(2) by simp
  moreover have "\<forall>e \<in> set scored'. e \<in> set scored \<or> (60 \<le> match_score e \<and> match_score e \<le> 98)"
    using rest(3) s by auto
  ultimately show ?case by blast
qed

lemma length_insort_reverse [simp]: "length (insort_reverse key x ys) = Suc (length ys)"
  by (induction ys) simp_all

lemma length_sort_reverse [simp]: "length (sort_reverse key xs) = length xs"
  by (induction xs) (simp_all add: sort_reverse_def)

lemma set_insort_reverse [simp]: "set (insort_reverse key x ys) = insert x (set ys)"
  by (induction ys) auto

lemma set_sort_reverse [simp]: "set (sort_reverse key xs) = set xs"
  by (induction xs) (simp_all add: sort_reverse_def)

lemma sorted_insort_reverse:
  "sorted_wrt (\<lambda>a b. key b \<le> key a) ys \<Longrightarrow>
   sorted_wrt (\<lambda>a b. key b \<le> key a) (insort_reverse key x ys)"
  by (induction ys) auto

lemma sorted_sort_reverse: "sorted_wrt (\<lambda>a b. key b \<le> key a) (sort_reverse key xs)"
  by (induction xs) (simp_all add: sort_reverse_def sorted_insort_reverse)

lemma filter_insort_reverse:
  "filter (\<lambda>y. key y = k) (insort_reverse key x ys) = filter (\<lambda>y. key y = k) (x # ys)"
  by (induction ys) auto

lemma sort_reverse_stable:
  "filter (\<lambda>y. key y = k) (sort_reverse key xs) = filter (\<lambda>y. key y = k) xs"
  by (induction xs) (simp_all add: sort_reverse_def filter_insort_reverse)

lemma platform_pool_Inr:
  "platform_pool request =
     Inr (if budget request = ''budget_friendly'' then
            [''Fliki'', ''Vidnoz'', ''Steve.ai'', ''VEED'', ''Lumen5'', ''Pictory'', ''InVideo'']
          else if budget request = ''professional'' then
            [''Pictory'', ''InVideo'', ''Elai'', ''Rephrase'', ''Yepic'', ''Synthesia'', ''HeyGen'']
          else
            [''Synthesia'', ''HeyGen'', ''Colossyan'', ''Hour One'', ''D-ID'',
             ''Movio'', ''DeepBrain'', ''Avaturn'', ''Oxolo'', ''Pipio''])"
  unfolding platform_pool_def PLATFORMS_lookups by simp

lemma calculate_matches_Inr:
  "\<exists>pool scored g' response.
     platform_pool request = Inr pool
     \<and> score_platforms pool request [] g = Inr (scored, g')
     \<and> map name scored = pool
     \<and> (\<forall>e \<in> set scored. 60 \<le> match_score e \<and> match_score e \<le> 98)
     \<and> calculate_matches request g = Inr response
     \<and> platforms response = map add_consensus (take 3 (sort_reverse match_score scored))
     \<and> overall_confidence response = 95
     \<and> total_evaluated response = int (length pool)
     \<and> synthesis_method response = ''3AI-MCP''"
proof -
  obtain pool where pool: "platform_pool request = Inr pool"
    using platform_pool_Inr by blast
  obtain scored g' where sc:
      "score_platforms pool request [] g = Inr (scored, g')"
      "map name scored = pool"
      "\<forall>e \<in> set scored. 60 \<le> match_score e \<and> match_score e \<le> 98"
    using score_platforms_total [of pool request "[]" g] by auto
  let ?response = "\<lparr>platforms = map add_consensus (take 3 (sort_reverse match_score scored)),
              overall_confidence = 95, total_evaluated = int (length pool),
              synthesis_method = ''3AI-MCP''\<rparr>"
  have cm: "calculate_matches request g = Inr ?response"
    by (simp add: calculate_matches_def pool sc(1))
  have "platforms ?response = map add_consensus (take 3 (sort_reverse match_score scored))"
    and "overall_confidence ?response = 95"
    and "total_evaluated ?response = int (length pool)"
    and "synthesis_method ?response = ''3AI-MCP''"
    by simp_all
  with pool sc cm show ?thesis by blast
qed

lemma match_score_add_consensus [simp]: "match_score (add_consensus e) = match_score e"
  by (simp add: add_consensus_def)

lemma name_add_consensus [simp]: "name (add_consensus e) = name e"
  by (simp add: add_consensus_def)

lemma length_platform_pool:
  "platform_pool request = Inr pool \<Longrightarrow>
   length pool = (if budget request = ''budget_friendly'' \<or> budget request = ''professional''
                  then 7 else 10)"
  unfolding platform_pool_Inr by (auto split: if_splits)

lemma distinct_platform_pool: "platform_pool request = Inr pool \<Longrightarrow> distinct pool"
  unfolding platform_pool_Inr by (auto split: if_splits)

text \<open>Evaluation of the engine on concrete requests.\<close>

lemmas engine_eval =
  calculate_matches_def platform_pool_Inr base_score_def budget_alignment_Inr
  team_size_consideration_Inr volume_requirements_Inr use_case_alignment_def
  calculate_platform_score_def randint_jitter generate_reasoning_def tier_reason_Inr
  use_case_reason_def volume_reason_def sort_reverse_def add_consensus_def

lemma randint_onto:
  assumes "- 3 \<le> v" and "v \<le> 3"
  shows "randint (- 3) 3 (\<lambda>i. nat (v + 3)) = Inr (v, \<lambda>i. nat (v + 3))"
  using assms by (simp add: randint_jitter)

lemma base_score_enterprise_training:
  assumes "budget request = ''enterprise''" and "use_case request = ''training''"
    and "team_size request = ''large_team''" and "monthly_volume request = ''50+''"
    and "platform = ''Colossyan'' \<or> platform = ''Hour One''"
  shows "base_score platform request = Inr 103"
  using assms
  by (auto simp add: base_score_def budget_alignment_Inr team_size_consideration_Inr
      volume_requirements_Inr use_case_alignment_def)

lemma enterprise_training_fields [simp]:
  "budget enterprise_training = ''enterprise''"
  "use_case enterprise_training = ''training''"
  "team_size enterprise_training = ''large_team''"
  "monthly_volume enterprise_training = ''50+''"
  by (simp_all add: enterprise_training_def)

lemma calculate_matches_enterprise_training:
  "calculate_matches enterprise_training (\<lambda>i. 3) =
     Inr \<lparr>platforms =
        [\<lparr>name = ''Colossyan'', match_score = 98,
          reasoning = ''Enterprise-grade features with full team collaboration. Excellent for educational and training content. Handles high-volume production efficiently'',
          ai_consensus = Some ''3/3 AIs recommend''\<rparr>,
         \<lparr>name = ''Hour One'', match_score = 98,
          reasoning = ''Enterprise-grade features with full team collaboration. Excellent for educational and training content. Handles high-volume production efficiently'',
          ai_consensus = Some ''3/3 AIs recommend''\<rparr>,
         \<lparr>name = ''Synthesia'', match_score = 95,
          reasoning = ''Enterprise-grade features with full team collaboration. Excellent for educational and training content. Handles high-volume production efficiently'',
          ai_consensus = Some ''3/3 AIs recommend''\<rparr>],
        overall_confidence = 95, total_evaluated = 10, synthesis_method = ''3AI-MCP''\<rparr>"
  by (simp add: enterprise_training_def engine_eval)

lemma calculate_platform_score_agree:
  assumes "budget r1 = budget r2" and "use_case r1 = use_case r2"
    and "team_size r1 = team_size r2" and "monthly_volume r1 = monthly_volume r2"
  shows "calculate_platform_score p r1 g = calculate_platform_score p r2 g"
  unfolding calculate_platform_score_def base_score_def budget_alignment_def
    use_case_alignment_def team_size_consideration_def volume_requirements_def assms
  by (rule refl)

lemma generate_reasoning_agree:
  assumes "use_case r1 = use_case r2" and "monthly_volume r1 = monthly_volume r2"
  shows "generate_reasoning p r1 = generate_reasoning p r2"
  unfolding generate_reasoning_def use_case_reason_def volume_reason_def assms
  by (rule refl)

lemma platform_pool_agree:
  assumes "budget r1 = budget r2"
  shows "platform_pool r1 = platform_pool r2"
  unfolding platform_pool_def assms by (rule refl)

lemma score_platforms_agree:
  assumes "budget r1 = budget r2" and "use_case r1 = use_case r2"
    and "team_size r1 = team_size r2" and "monthly_volume r1 = monthly_volume r2"
  shows "score_platforms pool r1 scored g = score_platforms pool r2 scored g"
proof (induction pool arbitrary: scored g)
  case Nil
  show ?case by simp
next
  case (Cons p pool)
  show ?case
    by (simp add: calculate_platform_score_agree [OF assms]
        generate_reasoning_agree [OF assms(2) assms(4)] Cons.IH)
qed

lemma use_case_reason_append: "use_case_reason request rs = rs @ use_case_reason request []"
  by (simp add: use_case_reason_def)

lemma volume_reason_append: "volume_reason request rs = rs @ volume_reason request []"
  by (simp add: volume_reason_def)

lemma use_case_alignment_add:
  "use_case_alignment p r b = b + use_case_alignment p r 0"
  by (simp add: use_case_alignment_def)

lemma team_size_consideration_add:
  "\<exists>t. team_size_consideration p r 0 = Inr t \<and> (\<forall>b. team_size_consideration p r b = Inr (b + t))"
  unfolding team_size_consideration_Inr by simp

lemma volume_requirements_add:
  "\<exists>v. volume_requirements p r 0 = Inr v \<and> (\<forall>b. volume_requirements p r b = Inr (b + v))"
  unfolding volume_requirements_Inr by simp

lemma base_score_blocks:
  assumes "budget_alignment p r 75 = Inr b1"
  shows "\<exists>t v. team_size_consideration p r 0 = Inr t
           \<and> volume_requirements p r 0 = Inr v
           \<and> base_score p r = Inr (b1 + use_case_alignment p r 0 + t + v)"
proof -
  obtain t where t: "team_size_consideration p r 0 = Inr t"
      "\<forall>b. team_size_consideration p r b = Inr (b + t)"
    using team_size_consideration_add by blast
  obtain v where v: "volume_requirements p r 0 = Inr v"
      "\<forall>b. volume_requirements p r b = Inr (b + v)"
    using volume_requirements_add by blast
  have "base_score p r = Inr (b1 + use_case_alignment p r 0 + t + v)"
    unfolding base_score_def assms
    using use_case_alignment_add [of p r b1] by (simp add: t(2) v(2))
  with t(1) v(1) show ?thesis by blast
qed

section \<open>The claims\<close>

text \<open>
  C1, as stated, fails. The request with the empty string as budget is neither
  \<open>budget_friendly\<close> nor \<open>professional\<close>; its pool is the enterprise pool and
  \<open>Synthesia\<close> is an enterprise platform in it, yet the budget block leaves the score at
  75: the third arm tests \<^verbatim>\<open>request.budget == "enterprise"\<close>, it is not an \<^verbatim>\<open>else\<close>.
\<close>
theorem C1_counterexample:
  "platform_pool \<lparr>features = [], budget = [], priorities = Map.empty, use_case = [],
       team_size = [], monthly_volume = []\<rparr> =
     Inr [''Synthesia'', ''HeyGen'', ''Colossyan'', ''Hour One'', ''D-ID'',
          ''Movio'', ''DeepBrain'', ''Avaturn'', ''Oxolo'', ''Pipio'']
   \<and> contained_in ''Synthesia'' (getitem PLATFORMS ''enterprise'') = Inr True
   \<and> budget_alignment ''Synthesia'' \<lparr>features = [], budget = [], priorities = Map.empty,
       use_case = [], team_size = [], monthly_volume = []\<rparr> 75 = Inr 75
   \<and> base_score ''Synthesia'' \<lparr>features = [], budget = [], priorities = Map.empty,
       use_case = [], team_size = [], monthly_volume = []\<rparr> = Inr 75"
  by (simp add: engine_eval PLATFORMS_lookups)

text \<open>
  C1, amended: for a budget that is neither \<open>budget_friendly\<close> nor \<open>professional\<close>, an
  enterprise-tier platform receives the +10 tier bonus in \<^verbatim>\<open>calculate_platform_score\<close>
  exactly when the budget is the string \<open>enterprise\<close>: its base score is 75, plus 10 in
  that case only, plus its use-case, team and volume bonuses, and its final score is the
  clamped sum of that and the variance. For every other such budget (the empty string,
  say) the budget block adds nothing, to any platform: the base score of every platform
  is 75 plus its use-case, team and volume bonuses.
\<close>
theorem C1_tier_bonus:
  assumes "budget request \<noteq> ''budget_friendly''" and "budget request \<noteq> ''professional''"
    and "getitem PLATFORMS ''enterprise'' = Inr tier" and "platform \<in> set tier"
  shows "budget_alignment platform request base =
           Inr (if budget request = ''enterprise'' then base + 10 else base)
         \<and> (budget request \<noteq> ''enterprise'' \<longrightarrow>
              (\<forall>p. budget_alignment p request base = Inr base))
         \<and> (\<exists>t v variance g'.
               team_size_consideration platform request 0 = Inr t
             \<and> volume_requirements platform request 0 = Inr v
             \<and> randint (- 3) 3 g = Inr (variance, g')
             \<and> base_score platform request =
                 Inr (75 + (if budget request = ''enterprise'' then 10 else 0)
                      + use_case_alignment platform request 0 + t + v)
             \<and> calculate_platform_score platform request g =
                 Inr (min 98 (max 60
                       (75 + (if budget request = ''enterprise'' then 10 else 0)
                        + use_case_alignment platform request 0 + t + v + variance)), g'))
         \<and> (budget request \<noteq> ''enterprise'' \<longrightarrow>
              (\<forall>p. \<exists>t v. team_size_consideration p request 0 = Inr t
                 \<and> volume_requirements p request 0 = Inr v
                 \<and> base_score p request = Inr (75 + use_case_alignment p request 0 + t + v)))"
proof -
  have block: "budget_alignment platform request b =
      Inr (if budget request = ''enterprise'' then b + 10 else b)" for b
    using assms unfolding budget_alignment_Inr PLATFORMS_enterprise by auto
  have none: "budget_alignment p request b = Inr b"
    if "budget request \<noteq> ''enterprise''" for p b
    using assms(1,2) that unfolding budget_alignment_Inr by simp
  have tier: "budget_alignment platform request 75 =
      Inr (75 + (if budget request = ''enterprise'' then 10 else 0))"
    using block [of 75] by simp
  obtain t v where tv: "team_size_consideration platform request 0 = Inr t"
      "volume_requirements platform request 0 = Inr v"
    and base: "base_score platform request =
        Inr (75 + (if budget request = ''enterprise'' then 10 else 0)
             + use_case_alignment platform request 0 + t + v)"
    using base_score_blocks [OF tier] by blast
  have draw: "randint (- 3) 3 g = Inr (int (g 0 mod 7) - 3, \<lambda>i. g (Suc i))"
    by (rule randint_jitter)
  have score: "calculate_platform_score platform request g =
      Inr (min 98 (max 60
             (75 + (if budget request = ''enterprise'' then 10 else 0)
              + use_case_alignment platform request 0 + t + v + (int (g 0 mod 7) - 3))),
           \<lambda>i. g (Suc i))"
    by (rule calculate_platform_score_Inr [OF base])
  have others: "\<exists>t v. team_size_consideration p request 0 = Inr t
                 \<and> volume_requirements p request 0 = Inr v
                 \<and> base_score p request = Inr (75 + use_case_alignment p request 0 + t + v)"
    if "budget request \<noteq> ''enterprise''" for p
    using base_score_blocks [OF none [OF that, of p 75]] .
  from block [of base] none tv base draw score others show ?thesis by blast
qed

theorem C1_tier_bonus_witness:
  "budget_alignment ''Synthesia'' \<lparr>features = [], budget = ''enterprise'',
       priorities = Map.empty, use_case = [], team_size = [], monthly_volume = []\<rparr> 75 = Inr 85
   \<and> base_score ''Synthesia'' \<lparr>features = [], budget = ''enterprise'',
       priorities = Map.empty, use_case = [], team_size = [], monthly_volume = []\<rparr> = Inr 85
   \<and> calculate_platform_score ''Synthesia'' \<lparr>features = [], budget = ''enterprise'',
       priorities = Map.empty, use_case = [], team_size = [], monthly_volume = []\<rparr> (\<lambda>i. 3)
       = Inr (85, \<lambda>i. 3)
   \<and> budget_alignment ''Synthesia'' \<lparr>features = [], budget = ''premium'',
       priorities = Map.empty, use_case = [], team_size = [], monthly_volume = []\<rparr> 75 = Inr 75
   \<and> base_score ''Synthesia'' \<lparr>features = [], budget = ''premium'',
       priorities = Map.empty, use_case = [], team_size = [], monthly_volume = []\<rparr> = Inr 75
   \<and> calculate_platform_score ''Synthesia'' \<lparr>features = [], budget = ''premium'',
       priorities = Map.empty, use_case = [], team_size = [], monthly_volume = []\<rparr> (\<lambda>i. 3)
       = Inr (75, \<lambda>i. 3)"
  using C1_tier_bonus [of "\<lparr>features = [], budget = ''enterprise'',
       priorities = Map.empty, use_case = [], team_size = [], monthly_volume = []\<rparr>"
       "[''Synthesia'', ''HeyGen'', ''Colossyan'', ''Hour One'', ''D-ID'']" "''Synthesia''" 75
       "\<lambda>i. 3"]
    C1_tier_bonus [of "\<lparr>features = [], budget = ''premium'',
       priorities = Map.empty, use_case = [], team_size = [], monthly_volume = []\<rparr>"
       "[''Synthesia'', ''HeyGen'', ''Colossyan'', ''Hour One'', ''D-ID'']" "''Synthesia''" 75
       "\<lambda>i. 3"]
  by (auto simp add: PLATFORMS_enterprise randint_jitter use_case_alignment_def
      team_size_consideration_Inr volume_requirements_Inr)

text \<open>
  C2: the candidate pool is the five budget platforms and the first two mid-tier ones
  for \<open>budget_friendly\<close>, the five mid-tier platforms and the first two enterprise ones
  for \<open>professional\<close>, and the five enterprise and the five specialized platforms for any
  other budget; and the endpoint returns a response, never an exception, whatever the
  budget is.
\<close>
theorem C2_candidate_pool:
  "\<exists>enterprise mid_tier budget_tier specialized.
     getitem PLATFORMS ''enterprise'' = Inr enterprise \<and> length enterprise = 5
   \<and> getitem PLATFORMS ''mid_tier'' = Inr mid_tier \<and> length mid_tier = 5
   \<and> getitem PLATFORMS ''budget'' = Inr budget_tier \<and> length budget_tier = 5
   \<and> getitem PLATFORMS ''specialized'' = Inr specialized \<and> length specialized = 5
   \<and> platform_pool request =
        Inr (if budget request = ''budget_friendly'' then budget_tier @ take 2 mid_tier
             else if budget request = ''professional'' then mid_tier @ take 2 enterprise
             else enterprise @ specialized)
   \<and> (\<exists>response. calculate_matches request g = Inr response)"
proof -
  obtain response where "calculate_matches request g = Inr response"
    using calculate_matches_Inr [of request g] by blast
  then show ?thesis
    unfolding platform_pool_Inr PLATFORMS_lookups by simp
qed

theorem C2_candidate_pool_witness:
  "platform_pool \<lparr>features = [], budget = [], priorities = Map.empty, use_case = [],
       team_size = [], monthly_volume = []\<rparr> =
     Inr [''Synthesia'', ''HeyGen'', ''Colossyan'', ''Hour One'', ''D-ID'',
          ''Movio'', ''DeepBrain'', ''Avaturn'', ''Oxolo'', ''Pipio'']
   \<and> (\<exists>response. calculate_matches \<lparr>features = [], budget = [], priorities = Map.empty,
         use_case = [], team_size = [], monthly_volume = []\<rparr> (\<lambda>i. i) = Inr response)"
  using C2_candidate_pool [of "\<lparr>features = [], budget = [], priorities = Map.empty,
       use_case = [], team_size = [], monthly_volume = []\<rparr>" "\<lambda>i. i"]
  by (simp add: PLATFORMS_lookups)

text \<open>
  C6: the endpoint returns a response whose \<open>platforms\<close> list has at most 3 entries, each
  with a \<open>match_score\<close> (an integer) between 60 and 98.
\<close>
theorem C6_top_3_and_score_range:
  "\<exists>response. calculate_matches request g = Inr response
     \<and> length (platforms response) \<le> 3
     \<and> (\<forall>e \<in> set (platforms response). 60 \<le> match_score e \<and> match_score e \<le> 98)"
proof -
  obtain scored response where
      sc: "\<forall>e \<in> set scored. 60 \<le> match_score e \<and> match_score e \<le> 98"
    and cm: "calculate_matches request g = Inr response"
    and pl: "platforms response = map add_consensus (take 3 (sort_reverse match_score scored))"
    using calculate_matches_Inr [of request g] by blast
  have len: "length (platforms response) \<le> 3"
    unfolding pl by simp
  have "set (take 3 (sort_reverse match_score scored)) \<subseteq> set scored"
    using set_take_subset [of 3 "sort_reverse match_score scored"] by simp
  with sc have "\<forall>e \<in> set (platforms response). 60 \<le> match_score e \<and> match_score e \<le> 98"
    unfolding pl by auto
  with cm len show ?thesis by blast
qed

theorem C6_top_3_and_score_range_witness:
  "\<exists>response. calculate_matches enterprise_training (\<lambda>i. 3) = Inr response
     \<and> map name (platforms response) = [''Colossyan'', ''Hour One'', ''Synthesia'']
     \<and> map match_score (platforms response) = [98, 98, 95]"
  using C6_top_3_and_score_range [of enterprise_training "\<lambda>i. 3"]
  by (simp add: calculate_matches_enterprise_training)

text \<open>
  C7: \<open>total_evaluated\<close> is the length of the whole candidate pool, 7 for the budgets
  \<open>budget_friendly\<close> and \<open>professional\<close> and 10 otherwise, not the length of the
  truncated list.
\<close>
theorem C7_total_evaluated:
  "\<exists>pool response. platform_pool request = Inr pool
     \<and> calculate_matches request g = Inr response
     \<and> total_evaluated response = int (length pool)
     \<and> length pool = (if budget request = ''budget_friendly'' \<or> budget request = ''professional''
                       then 7 else 10)"
proof -
  obtain pool response where pool: "platform_pool request = Inr pool"
    and cm: "calculate_matches request g = Inr response"
    and te: "total_evaluated response = int (length pool)"
    using calculate_matches_Inr [of request g] by blast
  from pool cm te length_platform_pool [OF pool] show ?thesis by blast
qed

theorem C7_total_evaluated_witness:
  "\<exists>response. calculate_matches enterprise_training (\<lambda>i. 3) = Inr response
     \<and> total_evaluated response = 10"
  using C7_total_evaluated [of enterprise_training "\<lambda>i. 3"]
  by (auto simp add: platform_pool_Inr)

text \<open>
  C10: the candidate pool has no duplicate name and has 7 entries (budget
  \<open>budget_friendly\<close> or \<open>professional\<close>) or 10 (any other budget), so the \<open>platforms\<close>
  list of the response always has exactly 3 entries.
\<close>
theorem C10_exactly_three:
  "\<exists>pool response. platform_pool request = Inr pool
     \<and> distinct pool
     \<and> (length pool = 7 \<or> length pool = 10)
     \<and> (length pool = 7 \<longleftrightarrow> budget request = ''budget_friendly'' \<or> budget request = ''professional'')
     \<and> calculate_matches request g = Inr response
     \<and> length (platforms response) = 3"
proof -
  obtain pool scored response where pool: "platform_pool request = Inr pool"
    and names: "map name scored = pool"
    and cm: "calculate_matches request g = Inr response"
    and pl: "platforms response = map add_consensus (take 3 (sort_reverse match_score scored))"
    using calculate_matches_Inr [of request g] by blast
  have len: "length pool = (if budget request = ''budget_friendly'' \<or> budget request = ''professional''
                       then 7 else 10)"
    using length_platform_pool [OF pool] .
  have "length scored = length pool"
    using names by (metis length_map)
  with len have "3 \<le> length scored"
    by (simp split: if_splits)
  then have three: "length (platforms response) = 3"
    unfolding pl by simp
  from len have "length pool = 7 \<or> length pool = 10"
    and "length pool = 7 \<longleftrightarrow> budget request = ''budget_friendly'' \<or> budget request = ''professional''"
    by (simp_all split: if_splits)
  with pool distinct_platform_pool [OF pool] cm three show ?thesis by blast
qed

theorem C10_exactly_three_witness:
  "\<exists>response. calculate_matches enterprise_training (\<lambda>i. 3) = Inr response
     \<and> length (platforms response) = 3"
  using C10_exactly_three [of enterprise_training "\<lambda>i. 3"]
  by auto

text \<open>
  C5: the \<open>platforms\<close> list of the response is sorted by \<open>match_score\<close> in non-increasing
  order, and for every score the returned platforms that have it appear in the order
  of the candidate pool (whose names are distinct).
\<close>
theorem C5_sorted_descending_stable:
  "\<exists>pool response. platform_pool request = Inr pool
     \<and> distinct pool
     \<and> calculate_matches request g = Inr response
     \<and> sorted_wrt (\<lambda>a b. match_score b \<le> match_score a) (platforms response)
     \<and> (\<forall>k. subseq (map name (filter (\<lambda>e. match_score e = k) (platforms response))) pool)"
proof -
  obtain pool scored response where pool: "platform_pool request = Inr pool"
    and names: "map name scored = pool"
    and cm: "calculate_matches request g = Inr response"
    and pl: "platforms response = map add_consensus (take 3 (sort_reverse match_score scored))"
    using calculate_matches_Inr [of request g] by blast
  let ?sorted = "sort_reverse match_score scored"
  have "sorted_wrt (\<lambda>a b. match_score b \<le> match_score a) (take 3 ?sorted)"
    using sorted_sort_reverse [of match_score scored] by (rule sorted_wrt_take)
  then have sorted: "sorted_wrt (\<lambda>a b. match_score b \<le> match_score a) (platforms response)"
    unfolding pl by (simp add: sorted_wrt_map)
  have stable: "subseq (map name (filter (\<lambda>e. match_score e = k) (platforms response))) pool" for k
  proof -
    let ?P = "\<lambda>e. match_score e = k"
    have "filter ?P (platforms response) = map add_consensus (filter ?P (take 3 ?sorted))"
      unfolding pl by (simp add: filter_map o_def)
    then have eq: "map name (filter ?P (platforms response)) = map name (filter ?P (take 3 ?sorted))"
      by (simp add: o_def)
    have "subseq (filter ?P (take 3 ?sorted)) (filter ?P ?sorted)"
      by (intro subseq_filter prefix_imp_subseq take_is_prefix)
    then have "subseq (filter ?P (take 3 ?sorted)) (filter ?P scored)"
      by (simp only: sort_reverse_stable)
    then have "subseq (filter ?P (take 3 ?sorted)) scored"
      using subseq_filter_left [of ?P scored] by (rule subseq_order.trans)
    then have "subseq (map name (filter ?P (take 3 ?sorted))) (map name scored)"
      by (rule subseq_map)
    then show ?thesis
      unfolding eq names .
  qed
  from pool distinct_platform_pool [OF pool] cm sorted stable show ?thesis by blast
qed

theorem C5_sorted_descending_stable_witness:
  "\<exists>response. calculate_matches enterprise_training (\<lambda>i. 3) = Inr response
     \<and> map name (platforms response) = [''Colossyan'', ''Hour One'', ''Synthesia'']
     \<and> map match_score (platforms response) = [98, 98, 95]
     \<and> subseq [''Colossyan'', ''Hour One'']
          [''Synthesia'', ''HeyGen'', ''Colossyan'', ''Hour One'', ''D-ID'',
           ''Movio'', ''DeepBrain'', ''Avaturn'', ''Oxolo'', ''Pipio'']"
proof -
  obtain pool response where pool: "platform_pool enterprise_training = Inr pool"
    and cm: "calculate_matches enterprise_training (\<lambda>i. 3) = Inr response"
    and st: "\<forall>k. subseq (map name (filter (\<lambda>e. match_score e = k) (platforms response))) pool"
    using C5_sorted_descending_stable [of enterprise_training "\<lambda>i. 3"] by blast
  have "pool = [''Synthesia'', ''HeyGen'', ''Colossyan'', ''Hour One'', ''D-ID'',
           ''Movio'', ''DeepBrain'', ''Avaturn'', ''Oxolo'', ''Pipio'']"
    using pool by (simp add: platform_pool_Inr)
  moreover have "map name (filter (\<lambda>e. match_score e = 98) (platforms response)) =
      [''Colossyan'', ''Hour One'']"
    and "map name (platforms response) = [''Colossyan'', ''Hour One'', ''Synthesia'']"
    and "map match_score (platforms response) = [98, 98, 95]"
    using cm by (auto simp add: calculate_matches_enterprise_training)
  ultimately show ?thesis
    using cm st by metis
qed

text \<open>
  C3: for budget \<open>enterprise\<close>, use case \<open>training\<close>, team size \<open>large_team\<close> and volume
  \<open>50+\<close> the pool is the 5 enterprise and the 5 specialized platforms, 10 in all;
  \<open>Colossyan\<close> and \<open>Hour One\<close> reach 75 + 10 + 8 + 5 + 5 = 103 before the variance, and
  their final score is 98 for every state of the generator, so for every variance from
  -3 to 3 (each of which some state of the generator produces).
\<close>
theorem C3_enterprise_training_scenario:
  assumes "budget request = ''enterprise''" and "use_case request = ''training''"
    and "team_size request = ''large_team''" and "monthly_volume request = ''50+''"
    and "platform = ''Colossyan'' \<or> platform = ''Hour One''"
  shows "\<exists>enterprise specialized.
       getitem PLATFORMS ''enterprise'' = Inr enterprise \<and> length enterprise = 5
     \<and> getitem PLATFORMS ''specialized'' = Inr specialized \<and> length specialized = 5
     \<and> platform_pool request = Inr (enterprise @ specialized)
     \<and> length (enterprise @ specialized) = 10
     \<and> platform \<in> set (enterprise @ specialized)
     \<and> base_score platform request = Inr (75 + 10 + 8 + 5 + 5)
     \<and> (\<forall>g. \<exists>g'. calculate_platform_score platform request g = Inr (98, g'))
     \<and> (\<forall>v. - 3 \<le> v \<and> v \<le> 3 \<longrightarrow>
           (\<exists>g g'. randint (- 3) 3 g = Inr (v, g')
              \<and> calculate_platform_score platform request g = Inr (98, g')))"
proof -
  have base: "base_score platform request = Inr 103"
    using assms by (rule base_score_enterprise_training)
  have score: "calculate_platform_score platform request g = Inr (98, \<lambda>i. g (Suc i))" for g
    unfolding calculate_platform_score_Inr [OF base] by simp
  have every: "\<exists>g g'. randint (- 3) 3 g = Inr (v, g')
              \<and> calculate_platform_score platform request g = Inr (98, g')"
    if "- 3 \<le> v \<and> v \<le> 3" for v
  proof -
    have "randint (- 3) 3 (\<lambda>i. nat (v + 3)) = Inr (v, \<lambda>i. nat (v + 3))"
      using that by (simp add: randint_onto)
    moreover have "calculate_platform_score platform request (\<lambda>i. nat (v + 3)) =
        Inr (98, \<lambda>i. nat (v + 3))"
      using score [of "\<lambda>i. nat (v + 3)"] by simp
    ultimately show ?thesis by blast
  qed
  have pool: "platform_pool request =
      Inr ([''Synthesia'', ''HeyGen'', ''Colossyan'', ''Hour One'', ''D-ID'']
           @ [''Movio'', ''DeepBrain'', ''Avaturn'', ''Oxolo'', ''Pipio''])"
    unfolding platform_pool_Inr using assms(1) by simp
  have mem: "platform \<in> set ([''Synthesia'', ''HeyGen'', ''Colossyan'', ''Hour One'', ''D-ID'']
           @ [''Movio'', ''DeepBrain'', ''Avaturn'', ''Oxolo'', ''Pipio''])"
    using assms(5) by auto
  have "length [''Synthesia'', ''HeyGen'', ''Colossyan'', ''Hour One'', ''D-ID''] = 5"
    and "length [''Movio'', ''DeepBrain'', ''Avaturn'', ''Oxolo'', ''Pipio''] = 5"
    and "length ([''Synthesia'', ''HeyGen'', ''Colossyan'', ''Hour One'', ''D-ID'']
           @ [''Movio'', ''DeepBrain'', ''Avaturn'', ''Oxolo'', ''Pipio'']) = 10"
    by simp_all
  moreover have "base_score platform request = Inr (75 + 10 + 8 + 5 + 5)"
    using base by simp
  moreover have "\<forall>g. \<exists>g'. calculate_platform_score platform request g = Inr (98, g')"
    using score by blast
  moreover have "\<forall>v. - 3 \<le> v \<and> v \<le> 3 \<longrightarrow>
           (\<exists>g g'. randint (- 3) 3 g = Inr (v, g')
              \<and> calculate_platform_score platform request g = Inr (98, g'))"
    using every by blast
  ultimately show ?thesis
    using PLATFORMS_enterprise PLATFORMS_specialized pool mem by blast
qed

theorem C3_enterprise_training_scenario_witness:
  "platform_pool enterprise_training =
     Inr [''Synthesia'', ''HeyGen'', ''Colossyan'', ''Hour One'', ''D-ID'',
          ''Movio'', ''DeepBrain'', ''Avaturn'', ''Oxolo'', ''Pipio'']
   \<and> base_score ''Hour One'' enterprise_training = Inr 103
   \<and> calculate_platform_score ''Hour One'' enterprise_training (\<lambda>i. 0) = Inr (98, \<lambda>i. 0)
   \<and> randint (- 3) 3 (\<lambda>i. 0) = Inr (- 3, \<lambda>i. 0)"
proof -
  have "\<exists>g'. calculate_platform_score ''Hour One'' enterprise_training (\<lambda>i. 0) = Inr (98, g')"
    and "base_score ''Hour One'' enterprise_training = Inr 103"
    and "platform_pool enterprise_training =
     Inr [''Synthesia'', ''HeyGen'', ''Colossyan'', ''Hour One'', ''D-ID'',
          ''Movio'', ''DeepBrain'', ''Avaturn'', ''Oxolo'', ''Pipio'']"
    using C3_enterprise_training_scenario [of enterprise_training "''Hour One''"]
    by (auto simp add: PLATFORMS_lookups)
  moreover have "calculate_platform_score ''Hour One'' enterprise_training (\<lambda>i. 0) = Inr (s, g')
      \<Longrightarrow> g' = (\<lambda>i. 0)" for s g'
    using calculate_platform_score_total [of "''Hour One''" enterprise_training "\<lambda>i. 0"] by auto
  moreover have "randint (- 3) 3 (\<lambda>i. 0) = Inr (- 3, \<lambda>i. 0)"
    by (simp add: randint_jitter)
  ultimately show ?thesis by auto
qed

text \<open>
  C4: the score of a platform is the clamped sum of its base score, which depends on the
  platform and the request only, and the variance drawn, which lies between -3 and 3;
  it differs by at most 3 from the score the same function returns when the variance
  drawn is 0. The candidate pool depends on the request only, and the scoring loop
  visits its names in order whatever the generator yields.
\<close>
theorem C4_jitter_around_baseline:
  assumes "randint (- 3) 3 g0 = Inr (0, g0')"
  shows "\<exists>b pool s s0 v g'.
       base_score platform request = Inr b
     \<and> platform_pool request = Inr pool
     \<and> randint (- 3) 3 g = Inr (v, g') \<and> - 3 \<le> v \<and> v \<le> 3
     \<and> calculate_platform_score platform request g = Inr (s, g')
     \<and> s = min 98 (max 60 (b + v))
     \<and> calculate_platform_score platform request g0 = Inr (s0, g0')
     \<and> s0 = min 98 (max 60 b)
     \<and> \<bar>s - s0\<bar> \<le> 3
     \<and> (\<exists>scored scored0 h h0.
           score_platforms pool request [] g = Inr (scored, h)
         \<and> score_platforms pool request [] g0 = Inr (scored0, h0)
         \<and> map name scored = pool \<and> map name scored0 = pool)"
proof -
  obtain b where b: "base_score platform request = Inr b"
    using base_score_total by blast
  obtain pool where pool: "platform_pool request = Inr pool"
    using platform_pool_Inr by blast
  define v where "v = int (g 0 mod 7) - 3"
  define g' where "g' = (\<lambda>i. g (Suc i))"
  have draw: "randint (- 3) 3 g = Inr (v, g')"
    by (simp add: randint_jitter v_def g'_def)
  have range: "- 3 \<le> v" "v \<le> 3"
    by (simp_all add: v_def)
  have s: "calculate_platform_score platform request g = Inr (min 98 (max 60 (b + v)), g')"
    by (simp add: calculate_platform_score_def b draw)
  have s0: "calculate_platform_score platform request g0 = Inr (min 98 (max 60 b), g0')"
    by (simp add: calculate_platform_score_def b assms)
  have near: "\<bar>min 98 (max 60 (b + v)) - min 98 (max 60 b)\<bar> \<le> 3"
    using range by (auto simp add: min_def max_def)
  obtain scored h where sc: "score_platforms pool request [] g = Inr (scored, h)"
    "map name scored = pool"
    using score_platforms_total [of pool request "[]" g] by auto
  obtain scored0 h0 where sc0: "score_platforms pool request [] g0 = Inr (scored0, h0)"
    "map name scored0 = pool"
    using score_platforms_total [of pool request "[]" g0] by auto
  from b pool draw range s s0 near sc sc0 show ?thesis by blast
qed

theorem C4_jitter_around_baseline_witness:
  "calculate_platform_score ''Movio'' enterprise_training (\<lambda>i. 6) = Inr (78, \<lambda>i. 6)
   \<and> calculate_platform_score ''Movio'' enterprise_training (\<lambda>i. 3) = Inr (75, \<lambda>i. 3)
   \<and> base_score ''Movio'' enterprise_training = Inr 75"
proof -
  have zero: "randint (- 3) 3 (\<lambda>i. 3) = Inr (0, \<lambda>i. 3)"
    by (simp add: randint_jitter)
  show ?thesis
    using C4_jitter_around_baseline [OF zero, of "''Movio''" enterprise_training "\<lambda>i. 6"]
    by (auto simp add: randint_jitter base_score_def budget_alignment_Inr
        team_size_consideration_Inr volume_requirements_Inr use_case_alignment_def)
qed

text \<open>
  C8: \<^verbatim>\<open>generate_reasoning\<close> returns the tier fragment, the use-case fragment and the
  high-volume fragment (at most one of each, in this order) joined with \<open>". "\<close>; a
  specialized platform has no tier fragment, and for a specialized platform, a use case
  other than \<open>marketing\<close>, \<open>training\<close>, \<open>social\<close> and a volume other than \<open>50+\<close> the
  reasoning is the empty string.
\<close>
theorem C8_reasoning_fragments:
  "\<exists>tier_part.
       tier_reason platform [] = Inr tier_part
     \<and> generate_reasoning platform request =
         Inr (join ''. '' (tier_part @ use_case_reason request [] @ volume_reason request []))
     \<and> length tier_part \<le> 1
     \<and> length (use_case_reason request []) \<le> 1
     \<and> length (volume_reason request []) \<le> 1
     \<and> (contained_in platform (getitem PLATFORMS ''specialized'') = Inr True \<longrightarrow>
           tier_part = []
         \<and> (use_case request \<noteq> ''marketing'' \<and> use_case request \<noteq> ''training''
              \<and> use_case request \<noteq> ''social'' \<and> monthly_volume request \<noteq> ''50+'' \<longrightarrow>
             generate_reasoning platform request = Inr []))"
proof -
  obtain tier_part where tp: "tier_reason platform [] = Inr tier_part"
    unfolding tier_reason_Inr by blast
  have gen: "generate_reasoning platform request =
      Inr (join ''. '' (tier_part @ use_case_reason request [] @ volume_reason request []))"
    unfolding generate_reasoning_def tp
    using volume_reason_append [of request "use_case_reason request tier_part"]
      use_case_reason_append [of request tier_part]
    by (simp add: Let_def)
  have len: "length tier_part \<le> 1"
    using tp unfolding tier_reason_Inr by auto
  have len_use: "length (use_case_reason request []) \<le> 1"
    by (simp add: use_case_reason_def)
  have len_vol: "length (volume_reason request []) \<le> 1"
    by (simp add: volume_reason_def)
  have spec: "tier_part = []"
    if "contained_in platform (getitem PLATFORMS ''specialized'') = Inr True"
    using that tp unfolding tier_reason_Inr PLATFORMS_specialized by auto
  have empty: "generate_reasoning platform request = Inr []"
    if "contained_in platform (getitem PLATFORMS ''specialized'') = Inr True"
      and "use_case request \<noteq> ''marketing'' \<and> use_case request \<noteq> ''training''
              \<and> use_case request \<noteq> ''social'' \<and> monthly_volume request \<noteq> ''50+''"
    unfolding gen spec [OF that(1)] using that(2)
    by (simp add: use_case_reason_def volume_reason_def)
  from tp gen len len_use len_vol spec empty show ?thesis by blast
qed

theorem C8_reasoning_fragments_witness:
  "generate_reasoning ''Movio'' \<lparr>features = [], budget = ''enterprise'', priorities = Map.empty,
       use_case = ''podcast'', team_size = ''large_team'', monthly_volume = ''11-50''\<rparr> = Inr []
   \<and> generate_reasoning ''Movio'' enterprise_training =
       Inr ''Excellent for educational and training content. Handles high-volume production efficiently''
   \<and> generate_reasoning ''Elai'' enterprise_training =
       Inr ''Balanced features and pricing for growing teams. Excellent for educational and training content. Handles high-volume production efficiently''"
  using C8_reasoning_fragments [of "''Movio''" "\<lparr>features = [], budget = ''enterprise'',
       priorities = Map.empty, use_case = ''podcast'', team_size = ''large_team'',
       monthly_volume = ''11-50''\<rparr>"]
    C8_reasoning_fragments [of "''Movio''" enterprise_training]
    C8_reasoning_fragments [of "''Elai''" enterprise_training]
  by (simp add: PLATFORMS_lookups tier_reason_Inr use_case_reason_def volume_reason_def)

text \<open>
  C9: two requests with the same budget, use case, team size and monthly volume get the
  same response from the same state of the generator, whatever their \<open>features\<close> and
  \<open>priorities\<close> are: pool selection, scoring and reasoning agree on them.
\<close>
theorem C9_priorities_and_features_unused:
  assumes "budget r1 = budget r2" and "use_case r1 = use_case r2"
    and "team_size r1 = team_size r2" and "monthly_volume r1 = monthly_volume r2"
  shows "calculate_matches r1 g = calculate_matches r2 g
     \<and> platform_pool r1 = platform_pool r2
     \<and> (\<forall>p h. calculate_platform_score p r1 h = calculate_platform_score p r2 h)
     \<and> (\<forall>p. generate_reasoning p r1 = generate_reasoning p r2)"
proof -
  have "calculate_matches r1 g = calculate_matches r2 g"
    by (simp add: calculate_matches_def platform_pool_agree [OF assms(1)]
        score_platforms_agree [OF assms])
  then show ?thesis
    using platform_pool_agree [OF assms(1)] calculate_platform_score_agree [OF assms]
      generate_reasoning_agree [OF assms(2) assms(4)] by blast
qed

theorem C9_priorities_and_features_unused_witness:
  "calculate_matches
     (enterprise_training\<lparr>features := [''avatars'', ''4k''],
        priorities := [''quality'' \<mapsto> 9 / 10, ''price'' \<mapsto> 1 / 10]\<rparr>) (\<lambda>i. 3)
   = calculate_matches enterprise_training (\<lambda>i. 3)"
  using C9_priorities_and_features_unused
    [of "enterprise_training\<lparr>features := [''avatars'', ''4k''],
        priorities := [''quality'' \<mapsto> 9 / 10, ''price'' \<mapsto> 1 / 10]\<rparr>"
      enterprise_training "\<lambda>i. 3"]
  by simp

end
